theory Spec2Isabelle
  imports Main
begin

section \<open>Python values\<close>

text \<open>
  The two scripts \<^verbatim>\<open>parse_title.py\<close> and \<^verbatim>\<open>parse_title_batch.py\<close> read
  \<^verbatim>\<open>sys.argv\<close>, call \<^verbatim>\<open>PTT.parse_title\<close>, and print \<^verbatim>\<open>json.dumps\<close> of a
  value. A Python \<^verbatim>\<open>str\<close> is a sequence of Unicode code points, so it is a list
  of naturals here; the bytes written to a stream are a HOL \<open>string\<close>.
\<close>

type_synonym pystr = "nat list"

definition py :: "string \<Rightarrow> pystr" where
  "py s = map of_char s"

text \<open>
  An object of a class the encoder has no rule for (a date, a set, bytes, an
  instance of a user class, ...): the \<^verbatim>\<open>tp_name\<close> of its type, which the C
  encoder prints in messages (\<^verbatim>\<open>datetime.date\<close>), the \<^verbatim>\<open>__name__\<close> of its class
  (\<^verbatim>\<open>date\<close>), and a number that stands for its contents. What \<^verbatim>\<open>str\<close> makes of
  it is not part of the object: that is up to the running interpreter.
\<close>

datatype pyobj = Obj (tp_name: pystr) (cls_name: pystr) (contents: nat)

text \<open>
  The dynamically typed values that can reach \<^verbatim>\<open>json.dumps\<close>. A \<^verbatim>\<open>dict\<close> keeps
  its insertion order, so it is the list of its items. A \<^verbatim>\<open>float\<close> is given by
  the text \<^verbatim>\<open>float.__repr__\<close> returns for it (\<^verbatim>\<open>1.5\<close>, \<^verbatim>\<open>1e+16\<close>, \<^verbatim>\<open>nan\<close>,
  \<^verbatim>\<open>inf\<close>, \<^verbatim>\<open>-inf\<close>). \<open>PyCycle\<close> stands where a list or dictionary holds a
  reference to a list or dictionary it is itself inside of; with it, a finite
  object graph is a finite tree.
\<close>

datatype pyval =
    PyNone
  | PyBool bool
  | PyInt int
  | PyFloat string
  | PyStr pystr
  | PyList "pyval list"
  | PyTuple "pyval list"
  | PyDict "(pyval \<times> pyval) list"
  | PyObj pyobj
  | PyCycle

text \<open>An exception object: the name of its class and the text \<^verbatim>\<open>str(e)\<close>.\<close>

datatype pyexc = PyExc (exc_class: string) (exc_str: pystr)

text \<open>
  The type name the encoder prints for a key it rejects. Lists and dictionaries
  are unhashable and never are keys.
\<close>

fun key_type_name :: "pyval \<Rightarrow> pystr" where
  "key_type_name (PyTuple xs) = py ''tuple''"
| "key_type_name (PyObj obj) = tp_name obj"
| "key_type_name (PyList xs) = py ''list''"
| "key_type_name k = py ''dict''"

text \<open>\<^verbatim>\<open>d.get(k)\<close> for a string key; a dictionary holds each key once.\<close>

fun getitem :: "pyval \<Rightarrow> pystr \<Rightarrow> pyval option" where
  "getitem (PyDict kvs) k = map_of kvs (PyStr k)"
| "getitem v k = None"

section \<open>The interpreter\<close>

text \<open>
  What a run depends on besides the script, its arguments and the parser:
  \<^item> what the builtin \<^verbatim>\<open>str\<close> does on an object: it may raise, and its text may
    differ from one process to the next (the order of a set of strings follows
    the hash seed, the default \<^verbatim>\<open>repr\<close> shows an address);
  \<^item> \<^verbatim>\<open>sys.get_int_max_str_digits()\<close>, 4300 unless configured, 0 for no limit
    and on versions without the limit;
  \<^item> how many levels of lists, dictionaries and \<^verbatim>\<open>default\<close> calls below the
    value given to \<^verbatim>\<open>json.dumps\<close> the encoder can enter before the recursion
    limit is hit;
  \<^item> the lines of a traceback after its first line: the frames, with their
    paths and line numbers, and the line that names the exception.
  Running out of memory and a closed stream are not modelled.
\<close>

record interpreter =
  str_builtin :: "pyobj \<Rightarrow> pyexc + pystr"
  int_max_str_digits :: nat
  nesting_limit :: nat
  traceback_body :: "pyexc \<Rightarrow> string"

section \<open>The JSON encoder\<close>

text \<open>
  \<^verbatim>\<open>json.dumps(obj)\<close> and \<^verbatim>\<open>json.dumps(obj, default=f)\<close> for a hook \<open>f\<close> that
  returns strings, as \<^verbatim>\<open>str\<close> does, with every other option at its default:
  \<^verbatim>\<open>ensure_ascii=True\<close>, \<^verbatim>\<open>skipkeys=False\<close>, \<^verbatim>\<open>check_circular=True\<close>,
  \<^verbatim>\<open>allow_nan=True\<close>, \<^verbatim>\<open>indent=None\<close>, separators \<^verbatim>\<open>', '\<close> and \<^verbatim>\<open>': '\<close>.
\<close>

definition dquote :: char where "dquote = CHR 0x22"
definition backslash :: char where "backslash = CHR 0x5C"
definition newline :: char where "newline = CHR 0x0A"

definition hexdigit :: "nat \<Rightarrow> char" where
  "hexdigit d = ''0123456789abcdef'' ! (d mod 16)"

text \<open>\<^verbatim>\<open>'{0:04x}'.format(n)\<close> for \<open>n < 0x10000\<close>.\<close>

definition hex4 :: "nat \<Rightarrow> string" where
  "hex4 n = [hexdigit (n div 4096), hexdigit (n div 256), hexdigit (n div 16), hexdigit n]"

text \<open>
  The replacement of one code point in \<^verbatim>\<open>py_encode_basestring_ascii\<close>: the regular
  expression \<^verbatim>\<open>([\\"]|[^\ -~])\<close> selects the quote, the backslash and everything
  outside \<^verbatim>\<open>' '..'~'\<close>; the table \<^verbatim>\<open>ESCAPE_DCT\<close> has the short escapes, everything
  else becomes \<^verbatim>\<open>\uXXXX\<close>, as a surrogate pair from \<^verbatim>\<open>0x10000\<close> on.
\<close>

definition escape_char :: "nat \<Rightarrow> string" where
  "escape_char n =
     (if n = 0x5C then [backslash, backslash]
      else if n = 0x22 then [backslash, dquote]
      else if 0x20 \<le> n \<and> n \<le> 0x7E then [char_of n]
      else if n = 0x08 then [backslash, CHR ''b'']
      else if n = 0x0C then [backslash, CHR ''f'']
      else if n = 0x0A then [backslash, CHR ''n'']
      else if n = 0x0D then [backslash, CHR ''r'']
      else if n = 0x09 then [backslash, CHR ''t'']
      else if n < 0x10000 then [backslash, CHR ''u''] @ hex4 n
      else let m = n - 0x10000;
               s1 = 0xD800 + (m div 1024) mod 1024;
               s2 = 0xDC00 + m mod 1024
           in [backslash, CHR ''u''] @ hex4 s1 @ [backslash, CHR ''u''] @ hex4 s2)"

definition encode_basestring_ascii :: "pystr \<Rightarrow> string" where
  "encode_basestring_ascii s = [dquote] @ concat (map escape_char s) @ [dquote]"

text \<open>The decimal digits of a natural number.\<close>

fun digits10 :: "nat \<Rightarrow> string" where
  "digits10 n =
     (if n < 10 then [''0123456789'' ! n]
      else digits10 (n div 10) @ [''0123456789'' ! (n mod 10)])"

declare digits10.simps [simp del]

text \<open>
  \<^verbatim>\<open>int.__repr__\<close>: the decimal digits, with a sign for negative numbers;
  \<^verbatim>\<open>ValueError\<close> when there are more digits than the interpreter's limit allows.
\<close>

definition int_repr :: "interpreter \<Rightarrow> int \<Rightarrow> pyexc + string" where
  "int_repr interp i =
     (let text = digits10 (nat \<bar>i\<bar>);
          limit = int_max_str_digits interp
      in if 0 < limit \<and> limit < length text
         then Inl (PyExc ''ValueError''
                (py ''Exceeds the limit ('' @ py (digits10 limit) @
                 py '' digits) for integer string conversion; use sys.set_int_max_str_digits() to increase the limit''))
         else Inr (if i < 0 then CHR ''-'' # text else text))"

text \<open>\<^verbatim>\<open>floatstr\<close> of the encoder, with \<^verbatim>\<open>allow_nan\<close> true.\<close>

definition floatstr :: "string \<Rightarrow> string" where
  "floatstr repr =
     (if repr = ''nan'' then ''NaN''
      else if repr = ''inf'' then ''Infinity''
      else if repr = ''-inf'' then ''-Infinity''
      else repr)"

text \<open>\<^verbatim>\<open>sep.join(parts)\<close>\<close>

fun join :: "string \<Rightarrow> string list \<Rightarrow> string" where
  "join sep [] = []"
| "join sep [x] = x"
| "join sep (x # y # ys) = x @ sep @ join sep (y # ys)"

text \<open>
  A dictionary key: \<^verbatim>\<open>str\<close> is taken as it is; \<^verbatim>\<open>float\<close>, \<^verbatim>\<open>True\<close>, \<^verbatim>\<open>False\<close>,
  \<^verbatim>\<open>None\<close> and \<^verbatim>\<open>int\<close> are turned into text; any other key raises \<^verbatim>\<open>TypeError\<close>
  (\<^verbatim>\<open>skipkeys\<close> is false). The \<^verbatim>\<open>default\<close> hook is not consulted for keys.
\<close>

fun encode_key :: "interpreter \<Rightarrow> pyval \<Rightarrow> pyexc + string" where
  "encode_key interp (PyStr s) = Inr (encode_basestring_ascii s)"
| "encode_key interp (PyFloat repr) = Inr (encode_basestring_ascii (py (floatstr repr)))"
| "encode_key interp (PyBool b) =
     Inr (encode_basestring_ascii (py (if b then ''true'' else ''false'')))"
| "encode_key interp PyNone = Inr (encode_basestring_ascii (py ''null''))"
| "encode_key interp (PyInt i) =
     (case int_repr interp i of
        Inl e \<Rightarrow> Inl e
      | Inr text \<Rightarrow> Inr (encode_basestring_ascii (py text)))"
| "encode_key interp k =
     Inl (PyExc ''TypeError''
       (py ''keys must be str, int, float, bool or None, not '' @ key_type_name k))"

definition recursion_error :: pyexc where
  "recursion_error =
     PyExc ''RecursionError'' (py ''maximum recursion depth exceeded while encoding a JSON object'')"

text \<open>
  The encoder itself, at nesting level \<open>depth\<close>. Entering a list, a tuple, a
  dictionary or the \<^verbatim>\<open>default\<close> call raises \<^verbatim>\<open>RecursionError\<close> beyond the
  interpreter's limit. A reference cycle raises \<^verbatim>\<open>ValueError\<close>. An object of an
  unknown class is handed to the \<^verbatim>\<open>default\<close> hook, whose exception is passed on
  and whose string is encoded; without a hook, \<^verbatim>\<open>TypeError\<close> is raised. Items
  are encoded from left to right and the first exception ends the encoding.
\<close>

fun encode :: "interpreter \<Rightarrow> (pyobj \<Rightarrow> pyexc + pystr) option \<Rightarrow> nat \<Rightarrow> pyval \<Rightarrow> pyexc + string"
  and encode_seq ::
    "interpreter \<Rightarrow> (pyobj \<Rightarrow> pyexc + pystr) option \<Rightarrow> nat \<Rightarrow> pyval list \<Rightarrow> pyexc + string list"
  and encode_items ::
    "interpreter \<Rightarrow> (pyobj \<Rightarrow> pyexc + pystr) option \<Rightarrow> nat \<Rightarrow> (pyval \<times> pyval) list \<Rightarrow>
       pyexc + string list"
where
  "encode interp dflt depth PyNone = Inr ''null''"
| "encode interp dflt depth (PyBool b) = Inr (if b then ''true'' else ''false'')"
| "encode interp dflt depth (PyInt i) = int_repr interp i"
| "encode interp dflt depth (PyFloat repr) = Inr (floatstr repr)"
| "encode interp dflt depth (PyStr s) = Inr (encode_basestring_ascii s)"
| "encode interp dflt depth (PyList xs) =
     (if nesting_limit interp < depth then Inl recursion_error
      else case encode_seq interp dflt (Suc depth) xs of
             Inl e \<Rightarrow> Inl e
           | Inr parts \<Rightarrow> Inr (''['' @ join '', '' parts @ '']''))"
| "encode interp dflt depth (PyTuple xs) =
     (if nesting_limit interp < depth then Inl recursion_error
      else case encode_seq interp dflt (Suc depth) xs of
             Inl e \<Rightarrow> Inl e
           | Inr parts \<Rightarrow> Inr (''['' @ join '', '' parts @ '']''))"
| "encode interp dflt depth (PyDict kvs) =
     (if nesting_limit interp < depth then Inl recursion_error
      else case encode_items interp dflt (Suc depth) kvs of
             Inl e \<Rightarrow> Inl e
           | Inr parts \<Rightarrow> Inr (''{'' @ join '', '' parts @ ''}''))"
| "encode interp dflt depth PyCycle =
     (if nesting_limit interp < depth then Inl recursion_error
      else Inl (PyExc ''ValueError'' (py ''Circular reference detected'')))"
| "encode interp dflt depth (PyObj obj) =
     (if nesting_limit interp < depth then Inl recursion_error
      else case dflt of
             None \<Rightarrow>
               Inl (PyExc ''TypeError''
                 (py ''Object of type '' @ cls_name obj @ py '' is not JSON serializable''))
           | Some hook \<Rightarrow>
               (case hook obj of
                  Inl e \<Rightarrow> Inl e
                | Inr s \<Rightarrow> Inr (encode_basestring_ascii s)))"
| "encode_seq interp dflt depth [] = Inr []"
| "encode_seq interp dflt depth (x # xs) =
     (case encode interp dflt depth x of
        Inl e \<Rightarrow> Inl e
      | Inr part \<Rightarrow>
          (case encode_seq interp dflt depth xs of
             Inl e \<Rightarrow> Inl e
           | Inr parts \<Rightarrow> Inr (part # parts)))"
| "encode_items interp dflt depth [] = Inr []"
| "encode_items interp dflt depth ((k, v) # kvs) =
     (case encode_key interp k of
        Inl e \<Rightarrow> Inl e
      | Inr key \<Rightarrow>
          (case encode interp dflt depth v of
             Inl e \<Rightarrow> Inl e
           | Inr part \<Rightarrow>
               (case encode_items interp dflt depth kvs of
                  Inl e \<Rightarrow> Inl e
                | Inr parts \<Rightarrow> Inr ((key @ '': '' @ part) # parts))))"

definition json_dumps ::
  "interpreter \<Rightarrow> (pyobj \<Rightarrow> pyexc + pystr) option \<Rightarrow> pyval \<Rightarrow> pyexc + string" where
  "json_dumps interp dflt obj = encode interp dflt 0 obj"

section \<open>The process and the parser\<close>

text \<open>
  What a run of a script leaves behind: the bytes written to the two streams, and
  the titles \<^verbatim>\<open>PTT.parse_title\<close> was called with, in the order of the calls.
\<close>

record process =
  stdout :: string
  stderr :: string
  parser_calls :: "pystr list"

definition start :: process where
  "start = \<lparr>stdout = [], stderr = [], parser_calls = []\<rparr>"

text \<open>
  How the interpreter ends: \<^verbatim>\<open>main()\<close> returned and the script ran to its end,
  \<^verbatim>\<open>sys.exit(n)\<close> raised \<^verbatim>\<open>SystemExit\<close>, or an exception reached the top
  level, where the exit status is 1.
\<close>

datatype ending = Returned | SystemExit int | Uncaught pyexc

fun exit_code :: "ending \<Rightarrow> int" where
  "exit_code Returned = 0"
| "exit_code (SystemExit n) = n"
| "exit_code (Uncaught e) = 1"

text \<open>\<^verbatim>\<open>print(line)\<close> and \<^verbatim>\<open>print(line, file=sys.stderr)\<close>\<close>

definition print_stdout :: "string \<Rightarrow> process \<Rightarrow> process" where
  "print_stdout line p = p\<lparr>stdout := stdout p @ line @ [newline]\<rparr>"

definition print_stderr :: "string \<Rightarrow> process \<Rightarrow> process" where
  "print_stderr line p = p\<lparr>stderr := stderr p @ line @ [newline]\<rparr>"

text \<open>
  An exception nobody catches: the interpreter writes the traceback to standard
  error, first the line \<^verbatim>\<open>Traceback (most recent call last):\<close>, then the frames
  and the line that names the exception, and the process ends.
\<close>

definition traceback_head :: string where
  "traceback_head = ''Traceback (most recent call last):'' @ [newline]"

definition uncaught :: "interpreter \<Rightarrow> pyexc \<Rightarrow> process \<Rightarrow> ending \<times> process" where
  "uncaught interp e p =
     (Uncaught e, p\<lparr>stderr := stderr p @ traceback_head @ traceback_body interp e\<rparr>)"

text \<open>
  \<^verbatim>\<open>PTT.parse_title\<close> is a library outside the repository. A call either returns
  a value or raises an exception of class \<^verbatim>\<open>Exception\<close> (the classes that
  \<^verbatim>\<open>except Exception\<close> catches); the parser is a function of the title, so it
  answers every call and answers equal titles alike.
\<close>

type_synonym parser = "pystr \<Rightarrow> pyexc + pyval"

definition call_parser :: "parser \<Rightarrow> pystr \<Rightarrow> process \<Rightarrow> (pyexc + pyval) \<times> process" where
  "call_parser parse_title title p =
     (parse_title title, p\<lparr>parser_calls := parser_calls p @ [title]\<rparr>)"

text \<open>
  The statement pair both scripts use to give up:
  \<^verbatim>\<open>print(json.dumps({"error": msg}), file=sys.stderr); sys.exit(1)\<close>
\<close>

definition report_error :: "interpreter \<Rightarrow> pystr \<Rightarrow> process \<Rightarrow> ending \<times> process" where
  "report_error interp msg p =
     (case json_dumps interp None (PyDict [(PyStr (py ''error''), PyStr msg)]) of
        Inl e \<Rightarrow> uncaught interp e p
      | Inr line \<Rightarrow> (SystemExit 1, print_stderr line p))"

section \<open>\<^verbatim>\<open>parse_title.py\<close>\<close>

text \<open>
  The call of the parser and \<^verbatim>\<open>json.dumps(result, default=str)\<close> both stand in
  the \<^verbatim>\<open>try\<close> block: an exception of either reaches the handler.
\<close>

definition main_single :: "interpreter \<Rightarrow> parser \<Rightarrow> pystr list \<Rightarrow> ending \<times> process" where
  "main_single interp parse_title argv =
     (if length argv < 2 then report_error interp (py ''No title provided'') start
      else
        let title = argv ! 1;
            (outcome, p) = call_parser parse_title title start
        in case (case outcome of
                   Inl e \<Rightarrow> Inl e
                 | Inr result \<Rightarrow> json_dumps interp (Some (str_builtin interp)) result) of
             Inr line \<Rightarrow> (Returned, print_stdout line p)
           | Inl e \<Rightarrow> report_error interp (exc_str e) p)"

section \<open>\<^verbatim>\<open>parse_title_batch.py\<close>\<close>

text \<open>The two dictionaries appended in the loop body.\<close>

definition item_parsed :: "pystr \<Rightarrow> pyval \<Rightarrow> pyval" where
  "item_parsed title parsed =
     PyDict [(PyStr (py ''title''), PyStr title),
             (PyStr (py ''parsed''), parsed),
             (PyStr (py ''error''), PyNone)]"

definition item_error :: "pystr \<Rightarrow> pyexc \<Rightarrow> pyval" where
  "item_error title e =
     PyDict [(PyStr (py ''title''), PyStr title),
             (PyStr (py ''parsed''), PyNone),
             (PyStr (py ''error''), PyStr (exc_str e))]"

text \<open>The \<^verbatim>\<open>for title in titles\<close> loop, with \<^verbatim>\<open>results\<close> as the accumulator.\<close>

fun parse_all :: "parser \<Rightarrow> pystr list \<Rightarrow> pyval list \<Rightarrow> process \<Rightarrow> pyval list \<times> process" where
  "parse_all parse_title [] results p = (results, p)"
| "parse_all parse_title (title # titles) results p =
     (let (outcome, p') = call_parser parse_title title p
      in case outcome of
           Inr parsed \<Rightarrow> parse_all parse_title titles (results @ [item_parsed title parsed]) p'
         | Inl e \<Rightarrow> parse_all parse_title titles (results @ [item_error title e]) p')"

text \<open>
  \<^verbatim>\<open>json.dumps(results, default=str)\<close> stands after the loop, outside every
  \<^verbatim>\<open>try\<close> block: its exception reaches the top level.
\<close>

definition main_batch :: "interpreter \<Rightarrow> parser \<Rightarrow> pystr list \<Rightarrow> ending \<times> process" where
  "main_batch interp parse_title argv =
     (if length argv < 2 then report_error interp (py ''No titles provided'') start
      else
        let titles = drop 1 argv;
            (results, p) = parse_all parse_title titles [] start
        in case json_dumps interp (Some (str_builtin interp)) (PyList results) of
             Inl e \<Rightarrow> uncaught interp e p
           | Inr line \<Rightarrow> (Returned, print_stdout line p))"

section \<open>Notions the properties are stated with\<close>

text \<open>The dictionary the loop body of the batch script appends for one title.\<close>

definition batch_item :: "parser \<Rightarrow> pystr \<Rightarrow> pyval" where
  "batch_item parse_title title =
     (case parse_title title of
        Inr parsed \<Rightarrow> item_parsed title parsed
      | Inl e \<Rightarrow> item_error title e)"

text \<open>The list \<^verbatim>\<open>results\<close> when the loop of the batch script has ended.\<close>

definition batch_results :: "parser \<Rightarrow> pystr list \<Rightarrow> pyval list" where
  "batch_results parse_title argv = fst (parse_all parse_title (drop 1 argv) [] start)"

text \<open>Text between double quotes.\<close>

definition quoted :: "string \<Rightarrow> string" where
  "quoted s = [dquote] @ s @ [dquote]"

text \<open>A member of a JSON object: the name between double quotes, a colon, the value.\<close>

definition member :: "string \<Rightarrow> string \<Rightarrow> string" where
  "member name text = quoted name @ '': '' @ text"

text \<open>The error envelope \<^verbatim>\<open>{"error": msg}\<close> as the encoder writes it.\<close>

definition envelope :: "pystr \<Rightarrow> string" where
  "envelope msg = ''{'' @ encode_basestring_ascii (py ''error'') @ '': '' @
                  encode_basestring_ascii msg @ ''}''"

text \<open>
  The objects the \<^verbatim>\<open>default\<close> hook can be called on while a value is encoded:
  those that stand as list elements or as values of dictionary items, at any
  depth.
\<close>

fun objects :: "pyval \<Rightarrow> pyobj list"
  and objects_seq :: "pyval list \<Rightarrow> pyobj list"
  and objects_items :: "(pyval \<times> pyval) list \<Rightarrow> pyobj list"
where
  "objects (PyObj obj) = [obj]"
| "objects (PyList xs) = objects_seq xs"
| "objects (PyTuple xs) = objects_seq xs"
| "objects (PyDict kvs) = objects_items kvs"
| "objects v = []"
| "objects_seq [] = []"
| "objects_seq (x # xs) = objects x @ objects_seq xs"
| "objects_items [] = []"
| "objects_items ((k, v) # kvs) = objects v @ objects_items kvs"

text \<open>The objects in the parser's answer to a title.\<close>

definition answer_objects :: "parser \<Rightarrow> pystr \<Rightarrow> pyobj list" where
  "answer_objects parse_title title =
     (case parse_title title of Inl e \<Rightarrow> [] | Inr result \<Rightarrow> objects result)"

subsection \<open>Interpreters, parsers and argument lists for the examples\<close>

text \<open>
  Two objects: the date \<^verbatim>\<open>datetime.date(2020, 1, 31)\<close> and the set of the
  strings \<^verbatim>\<open>a\<close> and \<^verbatim>\<open>b\<close>.
\<close>

definition a_date :: pyobj where
  "a_date = Obj (py ''datetime.date'') (py ''date'') 1"

definition a_set :: pyobj where
  "a_set = Obj (py ''set'') (py ''set'') 2"

text \<open>Text between apostrophes, as \<^verbatim>\<open>repr\<close> shows a string.\<close>

definition apostrophes :: "string \<Rightarrow> pystr" where
  "apostrophes s = [0x27] @ py s @ [0x27]"

text \<open>
  An interpreter with the default limit on integer digits and room for 990
  levels. \<^verbatim>\<open>str\<close> gives the ISO form of the date and lists the set
  \<^verbatim>\<open>{'a', 'b'}\<close> in this order. Of a traceback it prints, after the first line,
  the line that names the exception; the frames are left out.
\<close>

definition cpython :: interpreter where
  "cpython =
     \<lparr>str_builtin =
        (\<lambda>obj. if obj = a_date then Inr (py ''2020-01-31'')
               else if obj = a_set
               then Inr (py ''{'' @ apostrophes ''a'' @ py '', '' @ apostrophes ''b'' @ py ''}'')
               else Inr (py ''<object>'')),
      int_max_str_digits = 4300,
      nesting_limit = 990,
      traceback_body = (\<lambda>e. exc_class e @ '': '' @ map char_of (exc_str e) @ [newline])\<rparr>"

text \<open>
  The same interpreter started with another hash seed: the set is listed as
  \<^verbatim>\<open>{'b', 'a'}\<close>.
\<close>

definition cpython_reseeded :: interpreter where
  "cpython_reseeded =
     cpython\<lparr>str_builtin :=
        (\<lambda>obj. if obj = a_set
               then Inr (py ''{'' @ apostrophes ''b'' @ py '', '' @ apostrophes ''a'' @ py ''}'')
               else str_builtin cpython obj)\<rparr>"

text \<open>
  A parser that raises \<^verbatim>\<open>ValueError("no match")\<close> on the title \<^verbatim>\<open>bad\<close> and
  returns a dictionary with a string, an integer and a date object otherwise.
\<close>

definition demo_parser :: parser where
  "demo_parser title =
     (if title = py ''bad'' then Inl (PyExc ''ValueError'' (py ''no match''))
      else Inr (PyDict [(PyStr (py ''title''), PyStr title),
                        (PyStr (py ''year''), PyInt 1999),
                        (PyStr (py ''added''), PyObj a_date)]))"

text \<open>A parser that agrees with \<open>demo_parser\<close> on the title \<^verbatim>\<open>Heat.1995\<close> only.\<close>

definition other_parser :: parser where
  "other_parser title =
     (if title = py ''Heat.1995'' then demo_parser title else Inr PyNone)"

text \<open>
  A dictionary with string keys that holds, under \<^verbatim>\<open>"aired"\<close>, a dictionary
  keyed by a date object, and a parser that returns it for every title.
\<close>

definition dated_result :: pyval where
  "dated_result =
     PyDict [(PyStr (py ''title''), PyStr (py ''Heat'')),
             (PyStr (py ''aired''), PyDict [(PyObj a_date, PyInt 1)])]"

definition dated_parser :: parser where
  "dated_parser title = Inr dated_result"

text \<open>A parser that returns a dictionary holding a set of strings.\<close>

definition tags_parser :: parser where
  "tags_parser title =
     Inr (PyDict [(PyStr (py ''title''), PyStr title), (PyStr (py ''tags''), PyObj a_set)])"

text \<open>A parser that returns \<^verbatim>\<open>None\<close> for every title.\<close>

definition none_parser :: parser where
  "none_parser title = Inr PyNone"

text \<open>A parser that raises on every title.\<close>

definition failing_parser :: parser where
  "failing_parser title = Inl (PyExc ''ValueError'' (py ''no match''))"

definition argv_none :: "pystr list" where
  "argv_none = [py ''parse_title.py'']"

definition argv_one :: "pystr list" where
  "argv_one = [py ''parse_title.py'', py ''Heat.1995'']"

definition argv_two :: "pystr list" where
  "argv_two = [py ''parse_title.py'', py ''Heat.1995'', py ''bad'']"

definition argv_bad_first :: "pystr list" where
  "argv_bad_first = [py ''parse_title.py'', py ''bad'', py ''Heat.1995'']"

section \<open>The loop and the error envelope\<close>

lemma parse_all_eq:
  "parse_all parse_title titles results p =
     (results @ map (batch_item parse_title) titles,
      p\<lparr>parser_calls := parser_calls p @ titles\<rparr>)"
proof (induction titles arbitrary: results p)
  case Nil
  then show ?case by simp
next
  case (Cons title titles)
  then show ?case
    by (simp add: call_parser_def batch_item_def split: sum.splits)
qed

lemma batch_results_eq:
  "batch_results parse_title argv = map (batch_item parse_title) (drop 1 argv)"
  by (simp add: batch_results_def parse_all_eq)

lemma dumps_envelope:
  "json_dumps interp None (PyDict [(PyStr (py ''error''), PyStr msg)]) = Inr (envelope msg)"
  by (simp add: json_dumps_def envelope_def)

lemma report_error_eq:
  "report_error interp msg p =
     (SystemExit 1, p\<lparr>stderr := stderr p @ envelope msg @ [newline]\<rparr>)"
  by (simp add: report_error_def dumps_envelope print_stderr_def)

lemma envelope_no_title:
  "envelope (py ''No title provided'') =
     ''{'' @ quoted ''error'' @ '': '' @ quoted ''No title provided'' @ ''}''"
  by code_simp

lemma envelope_no_titles:
  "envelope (py ''No titles provided'') =
     ''{'' @ quoted ''error'' @ '': '' @ quoted ''No titles provided'' @ ''}''"
  by code_simp

section \<open>The two scripts, case by case\<close>

lemma main_single_usage:
  "length argv < 2 \<Longrightarrow>
   main_single interp parse_title argv =
     (SystemExit 1,
      \<lparr>stdout = [], stderr = envelope (py ''No title provided'') @ [newline], parser_calls = []\<rparr>)"
  by (simp add: main_single_def report_error_eq start_def)

lemma main_batch_usage:
  "length argv < 2 \<Longrightarrow>
   main_batch interp parse_title argv =
     (SystemExit 1,
      \<lparr>stdout = [], stderr = envelope (py ''No titles provided'') @ [newline], parser_calls = []\<rparr>)"
  by (simp add: main_batch_def report_error_eq start_def)

lemma main_single_eq:
  "2 \<le> length argv \<Longrightarrow>
   main_single interp parse_title argv =
     (case (case parse_title (argv ! 1) of
              Inl e \<Rightarrow> Inl e
            | Inr result \<Rightarrow> json_dumps interp (Some (str_builtin interp)) result) of
        Inr line \<Rightarrow>
          (Returned, \<lparr>stdout = line @ [newline], stderr = [], parser_calls = [argv ! 1]\<rparr>)
      | Inl e \<Rightarrow>
          (SystemExit 1,
           \<lparr>stdout = [], stderr = envelope (exc_str e) @ [newline], parser_calls = [argv ! 1]\<rparr>))"
  by (simp add: main_single_def call_parser_def report_error_eq print_stdout_def start_def
        split: sum.splits)

lemma main_batch_eq:
  "2 \<le> length argv \<Longrightarrow>
   main_batch interp parse_title argv =
     (case json_dumps interp (Some (str_builtin interp)) (PyList (batch_results parse_title argv)) of
        Inl e \<Rightarrow>
          (Uncaught e,
           \<lparr>stdout = [], stderr = traceback_head @ traceback_body interp e,
              parser_calls = drop 1 argv\<rparr>)
      | Inr line \<Rightarrow>
          (Returned, \<lparr>stdout = line @ [newline], stderr = [], parser_calls = drop 1 argv\<rparr>))"
  by (simp add: main_batch_def batch_results_eq parse_all_eq print_stdout_def uncaught_def
        start_def split: sum.splits)

lemma getitem_title: "getitem (batch_item parse_title title) (py ''title'') = Some (PyStr title)"
  by (simp add: batch_item_def item_parsed_def item_error_def py_def split: sum.splits)

lemma getitem_parsed:
  "getitem (batch_item parse_title title) (py ''parsed'') =
     Some (case parse_title title of Inr result \<Rightarrow> result | Inl e \<Rightarrow> PyNone)"
  by (simp add: batch_item_def item_parsed_def item_error_def py_def split: sum.splits)

lemma getitem_error:
  "getitem (batch_item parse_title title) (py ''error'') =
     Some (case parse_title title of Inr result \<Rightarrow> PyNone | Inl e \<Rightarrow> PyStr (exc_str e))"
  by (simp add: batch_item_def item_parsed_def item_error_def py_def split: sum.splits)

section \<open>What the encoder takes from the interpreter\<close>

lemma int_repr_cong:
  "int_max_str_digits interp' = int_max_str_digits interp \<Longrightarrow>
   int_repr interp' i = int_repr interp i"
  by (simp add: int_repr_def)

lemma encode_key_cong:
  "int_max_str_digits interp' = int_max_str_digits interp \<Longrightarrow>
   encode_key interp' k = encode_key interp k"
  using int_repr_cong [of interp' interp] by (cases k) simp_all

lemma encode_cong:
  assumes "int_max_str_digits interp' = int_max_str_digits interp"
    and "nesting_limit interp' = nesting_limit interp"
  shows "\<forall>obj \<in> set (objects v). f obj = g obj \<Longrightarrow>
           encode interp' (Some f) depth v = encode interp (Some g) depth v"
    and "\<forall>obj \<in> set (objects_seq xs). f obj = g obj \<Longrightarrow>
           encode_seq interp' (Some f) depth xs = encode_seq interp (Some g) depth xs"
    and "\<forall>obj \<in> set (objects_items kvs). f obj = g obj \<Longrightarrow>
           encode_items interp' (Some f) depth kvs = encode_items interp (Some g) depth kvs"
  using assms int_repr_cong [OF assms(1)] encode_key_cong [OF assms(1)]
  by (induction v and xs and kvs arbitrary: depth and depth and depth
        rule: objects_objects_seq_objects_items.induct)
     (simp_all cong: sum.case_cong)

lemma objects_batch_item:
  "objects (batch_item parse_title title) = answer_objects parse_title title"
  by (simp add: batch_item_def answer_objects_def item_parsed_def item_error_def
        split: sum.splits)

lemma objects_seq_map:
  "set (objects_seq (map f xs)) = (\<Union>x \<in> set xs. set (objects (f x)))"
  by (induction xs) auto

lemma batch_results_cong:
  assumes "\<forall>title \<in> set (drop 1 argv). parse_title title = parse_title' title"
  shows "batch_results parse_title argv = batch_results parse_title' argv"
  using assms by (simp add: batch_results_eq batch_item_def)

lemma json_dumps_cong:
  assumes "\<forall>obj \<in> set (objects v). str_builtin interp obj = str' obj"
  shows "json_dumps (interp\<lparr>str_builtin := str'\<rparr>) (Some str') v =
         json_dumps interp (Some (str_builtin interp)) v"
proof -
  have "encode (interp\<lparr>str_builtin := str'\<rparr>) (Some str') 0 v =
        encode interp (Some (str_builtin interp)) 0 v"
    by (rule encode_cong(1)) (use assms in simp_all)
  then show ?thesis by (simp add: json_dumps_def)
qed

lemma report_error_cong:
  "report_error (interp\<lparr>str_builtin := str'\<rparr>) msg p = report_error interp msg p"
  by (simp add: report_error_eq)

section \<open>Values the encoder rejects whatever their keys\<close>

lemma length_digits10_power: "length (digits10 (10 ^ k)) = Suc k"
proof (induction k)
  case 0
  show ?case by (subst digits10.simps) simp
next
  case (Suc k)
  have "\<not> (10::nat) ^ Suc k < 10" by simp
  moreover have "(10::nat) ^ Suc k div 10 = 10 ^ k" by simp
  ultimately show ?case using Suc by (subst digits10.simps) simp
qed

lemma int_repr_over_limit:
  "0 < int_max_str_digits interp \<Longrightarrow>
   isl (int_repr interp (10 ^ int_max_str_digits interp))"
proof -
  assume "0 < int_max_str_digits interp"
  moreover have "length (digits10 (nat \<bar>10 ^ int_max_str_digits interp :: int\<bar>)) =
                 Suc (int_max_str_digits interp)"
    by (simp add: nat_power_eq length_digits10_power)
  ultimately show ?thesis
    by (simp only: int_repr_def Let_def) simp
qed

lemma encode_cycle: "isl (encode interp dflt depth PyCycle)"
  by simp

subsection \<open>The examples\<close>

lemma demo_parser_Heat:
  "demo_parser (py ''Heat.1995'') =
     Inr (PyDict [(PyStr (py ''title''), PyStr (py ''Heat.1995'')),
                  (PyStr (py ''year''), PyInt 1999),
                  (PyStr (py ''added''), PyObj a_date)])"
  by (simp add: demo_parser_def py_def)

lemma demo_parser_bad: "demo_parser (py ''bad'') = Inl (PyExc ''ValueError'' (py ''no match''))"
  by (simp add: demo_parser_def)

lemma answer_objects_demo: "set (answer_objects demo_parser title) \<subseteq> {a_date}"
  by (simp add: answer_objects_def demo_parser_def)

lemma str_a_date: "str_builtin cpython_reseeded a_date = str_builtin cpython a_date"
  by (simp add: cpython_reseeded_def cpython_def a_date_def a_set_def py_def)

section \<open>Properties of the scripts\<close>

text \<open>
  C1. Batch script, at least one positional argument: every positional argument
  is a title of its own, and the output array is to have one entry per argument,
  in the order of the arguments. In the first run below it has: two titles, two
  entries, the first title first. In the second run the parser answers the title
  with a dictionary that holds a dictionary keyed by a date. The list
  \<^verbatim>\<open>results\<close> has its one item, but \<^verbatim>\<open>json.dumps(results, default=str)\<close> raises
  \<^verbatim>\<open>TypeError\<close>, the \<^verbatim>\<open>default\<close> hook not being applied to keys, and no array is
  printed at all.
\<close>

theorem batch_output_array_lost:
  "main_batch cpython demo_parser argv_two =
     (Returned,
      \<lparr>stdout =
         ''[{'' @ member ''title'' (quoted ''Heat.1995'') @ '', '' @
           member ''parsed''
             (''{'' @ member ''title'' (quoted ''Heat.1995'') @ '', '' @
              member ''year'' ''1999'' @ '', '' @
              member ''added'' (quoted ''2020-01-31'') @ ''}'') @ '', '' @
           member ''error'' ''null'' @
         ''}, {'' @ member ''title'' (quoted ''bad'') @ '', '' @
           member ''parsed'' ''null'' @ '', '' @
           member ''error'' (quoted ''no match'') @ ''}]'' @ [newline],
       stderr = [],
       parser_calls = [py ''Heat.1995'', py ''bad'']\<rparr>) \<and>
   batch_results dated_parser argv_one = [item_parsed (py ''Heat.1995'') dated_result] \<and>
   fst (main_batch cpython dated_parser argv_one) =
     Uncaught (PyExc ''TypeError''
       (py ''keys must be str, int, float, bool or None, not datetime.date'')) \<and>
   stdout (snd (main_batch cpython dated_parser argv_one)) = []"
  by code_simp

text \<open>
  C2, as the code has it. Batch script: the item of a title the parser answers
  has the parser's result under \<^verbatim>\<open>"parsed"\<close> and \<^verbatim>\<open>None\<close> under \<^verbatim>\<open>"error"\<close>; the
  item of a title the parser raises on has \<^verbatim>\<open>None\<close> under \<^verbatim>\<open>"parsed"\<close> and the
  text \<^verbatim>\<open>str(e)\<close> under \<^verbatim>\<open>"error"\<close>. The two fields are never both set. They are
  both \<^verbatim>\<open>None\<close> exactly when the parser returns \<^verbatim>\<open>None\<close> itself.
\<close>

theorem batch_item_parsed_or_error:
  assumes "2 \<le> length argv" and "i < length (drop 1 argv)"
  shows "(\<forall>result. parse_title (drop 1 argv ! i) = Inr result \<longrightarrow>
            getitem (batch_results parse_title argv ! i) (py ''parsed'') = Some result \<and>
            getitem (batch_results parse_title argv ! i) (py ''error'') = Some PyNone) \<and>
         (\<forall>e. parse_title (drop 1 argv ! i) = Inl e \<longrightarrow>
            getitem (batch_results parse_title argv ! i) (py ''parsed'') = Some PyNone \<and>
            getitem (batch_results parse_title argv ! i) (py ''error'') = Some (PyStr (exc_str e))) \<and>
         (getitem (batch_results parse_title argv ! i) (py ''parsed'') = Some PyNone \<or>
          getitem (batch_results parse_title argv ! i) (py ''error'') = Some PyNone) \<and>
         ((getitem (batch_results parse_title argv ! i) (py ''parsed'') = Some PyNone \<and>
           getitem (batch_results parse_title argv ! i) (py ''error'') = Some PyNone) =
          (parse_title (drop 1 argv ! i) = Inr PyNone))"
proof -
  from assms(2) have item:
    "batch_results parse_title argv ! i = batch_item parse_title (drop 1 argv ! i)"
    by (simp add: batch_results_eq)
  show ?thesis
  proof (cases "parse_title (drop 1 argv ! i)")
    case (Inl e)
    then show ?thesis by (simp add: item getitem_parsed getitem_error)
  next
    case (Inr result)
    then show ?thesis by (simp add: item getitem_parsed getitem_error)
  qed
qed

theorem batch_item_parsed_or_error_witness:
  "2 \<le> length argv_two \<and>
   getitem (batch_results demo_parser argv_two ! 0) (py ''parsed'') =
     Some (PyDict [(PyStr (py ''title''), PyStr (py ''Heat.1995'')),
                   (PyStr (py ''year''), PyInt 1999),
                   (PyStr (py ''added''), PyObj a_date)]) \<and>
   getitem (batch_results demo_parser argv_two ! 0) (py ''error'') = Some PyNone \<and>
   getitem (batch_results demo_parser argv_two ! 1) (py ''parsed'') = Some PyNone \<and>
   getitem (batch_results demo_parser argv_two ! 1) (py ''error'') = Some (PyStr (py ''no match''))"
proof -
  have h: "2 \<le> length argv_two" by (simp add: argv_two_def)
  have i0: "0 < length (drop 1 argv_two)" and i1: "1 < length (drop 1 argv_two)"
    by (simp_all add: argv_two_def)
  have p0: "drop 1 argv_two ! 0 = py ''Heat.1995''" and p1: "drop 1 argv_two ! 1 = py ''bad''"
    by (simp_all add: argv_two_def)
  from batch_item_parsed_or_error [OF h i0, of demo_parser, unfolded p0]
  have "getitem (batch_results demo_parser argv_two ! 0) (py ''parsed'') =
          Some (PyDict [(PyStr (py ''title''), PyStr (py ''Heat.1995'')),
                        (PyStr (py ''year''), PyInt 1999),
                        (PyStr (py ''added''), PyObj a_date)]) \<and>
        getitem (batch_results demo_parser argv_two ! 0) (py ''error'') = Some PyNone"
    by (simp add: demo_parser_Heat)
  moreover from batch_item_parsed_or_error [OF h i1, of demo_parser, unfolded p1]
  have "getitem (batch_results demo_parser argv_two ! 1) (py ''parsed'') = Some PyNone \<and>
        getitem (batch_results demo_parser argv_two ! 1) (py ''error'') = Some (PyStr (py ''no match''))"
    by (simp add: demo_parser_bad)
  ultimately show ?thesis using h by simp
qed

text \<open>
  As stated, C2 has the two fields never both null. A parser that returns
  \<^verbatim>\<open>None\<close> succeeds, and the script stores and prints \<^verbatim>\<open>null\<close> in both.
\<close>

theorem batch_item_parsed_or_error_counterexample:
  "none_parser (argv_one ! 1) = Inr PyNone \<and>
   getitem (batch_results none_parser argv_one ! 0) (py ''parsed'') = Some PyNone \<and>
   getitem (batch_results none_parser argv_one ! 0) (py ''error'') = Some PyNone \<and>
   main_batch cpython none_parser argv_one =
     (Returned,
      \<lparr>stdout =
         ''[{'' @ member ''title'' (quoted ''Heat.1995'') @ '', '' @
           member ''parsed'' ''null'' @ '', '' @
           member ''error'' ''null'' @ ''}]'' @ [newline],
       stderr = [],
       parser_calls = [py ''Heat.1995'']\<rparr>)"
  by code_simp

text \<open>
  C3. Batch script: a title the parser raises on is not to abort the batch, the
  whole array is to be written and the exit status is to be 0. In the first run
  below the parser raises on the first title; the second title is still parsed,
  both items are printed on one line and the status is 0. In the second run the
  parser raises on nothing, but its result holds a dictionary keyed by a date:
  \<^verbatim>\<open>json.dumps\<close> raises after the loop, where no handler is in place, nothing is
  printed and the exit status is 1.
\<close>

theorem batch_exit_status_after_rejected_key:
  "main_batch cpython demo_parser argv_bad_first =
     (Returned,
      \<lparr>stdout =
         ''[{'' @ member ''title'' (quoted ''bad'') @ '', '' @
           member ''parsed'' ''null'' @ '', '' @
           member ''error'' (quoted ''no match'') @
         ''}, {'' @ member ''title'' (quoted ''Heat.1995'') @ '', '' @
           member ''parsed''
             (''{'' @ member ''title'' (quoted ''Heat.1995'') @ '', '' @
              member ''year'' ''1999'' @ '', '' @
              member ''added'' (quoted ''2020-01-31'') @ ''}'') @ '', '' @
           member ''error'' ''null'' @ ''}]'' @ [newline],
       stderr = [],
       parser_calls = [py ''bad'', py ''Heat.1995'']\<rparr>) \<and>
   exit_code (fst (main_batch cpython demo_parser argv_bad_first)) = 0 \<and>
   dated_parser (argv_one ! 1) = Inr dated_result \<and>
   parser_calls (snd (main_batch cpython dated_parser argv_one)) = [py ''Heat.1995''] \<and>
   stdout (snd (main_batch cpython dated_parser argv_one)) = [] \<and>
   exit_code (fst (main_batch cpython dated_parser argv_one)) = 1"
  by code_simp

text \<open>
  C4. No positional argument: the single-title script writes the line
  \<^verbatim>\<open>{"error": "No title provided"}\<close> and the batch script the line
  \<^verbatim>\<open>{"error": "No titles provided"}\<close> to standard error; both write nothing to
  standard output and exit with status 1.
\<close>

theorem no_arguments_usage_error:
  assumes "length argv < 2"
  shows "stderr (snd (main_single interp parse_title argv)) =
           ''{'' @ quoted ''error'' @ '': '' @ quoted ''No title provided'' @ ''}'' @ [newline] \<and>
         stdout (snd (main_single interp parse_title argv)) = [] \<and>
         exit_code (fst (main_single interp parse_title argv)) = 1 \<and>
         stderr (snd (main_batch interp parse_title argv)) =
           ''{'' @ quoted ''error'' @ '': '' @ quoted ''No titles provided'' @ ''}'' @ [newline] \<and>
         stdout (snd (main_batch interp parse_title argv)) = [] \<and>
         exit_code (fst (main_batch interp parse_title argv)) = 1"
  using assms
  by (simp add: main_single_usage main_batch_usage envelope_no_title envelope_no_titles)

theorem no_arguments_usage_error_witness:
  "length argv_none < 2 \<and>
   stderr (snd (main_single cpython demo_parser argv_none)) =
     ''{'' @ quoted ''error'' @ '': '' @ quoted ''No title provided'' @ ''}'' @ [newline] \<and>
   stdout (snd (main_single cpython demo_parser argv_none)) = [] \<and>
   exit_code (fst (main_single cpython demo_parser argv_none)) = 1 \<and>
   stderr (snd (main_batch cpython demo_parser argv_none)) =
     ''{'' @ quoted ''error'' @ '': '' @ quoted ''No titles provided'' @ ''}'' @ [newline] \<and>
   stdout (snd (main_batch cpython demo_parser argv_none)) = [] \<and>
   exit_code (fst (main_batch cpython demo_parser argv_none)) = 1"
proof -
  have h: "length argv_none < 2" by (simp add: argv_none_def)
  from no_arguments_usage_error [OF h, of cpython demo_parser] h show ?thesis by simp
qed

text \<open>
  C5. Single-title script, at least one positional argument: a result of the
  parser is to go to standard output with exit status 0, an exception of the
  parser to standard error with a status other than 0. The first two runs below
  do so. In the third the parser succeeds with a dictionary that holds a
  dictionary keyed by a date; \<^verbatim>\<open>json.dumps(result, default=str)\<close> raises
  \<^verbatim>\<open>TypeError\<close> inside the \<^verbatim>\<open>try\<close> block, and the script reports the success as
  an error: nothing on standard output, the envelope on standard error, status 1.
\<close>

theorem single_success_reported_as_error:
  "main_single cpython demo_parser argv_one =
     (Returned,
      \<lparr>stdout =
         ''{'' @ member ''title'' (quoted ''Heat.1995'') @ '', '' @
         member ''year'' ''1999'' @ '', '' @
         member ''added'' (quoted ''2020-01-31'') @ ''}'' @ [newline],
       stderr = [],
       parser_calls = [py ''Heat.1995'']\<rparr>) \<and>
   main_single cpython failing_parser argv_one =
     (SystemExit 1,
      \<lparr>stdout = [],
         stderr = ''{'' @ member ''error'' (quoted ''no match'') @ ''}'' @ [newline],
         parser_calls = [py ''Heat.1995'']\<rparr>) \<and>
   dated_parser (argv_one ! 1) = Inr dated_result \<and>
   main_single cpython dated_parser argv_one =
     (SystemExit 1,
      \<lparr>stdout = [],
         stderr =
           ''{'' @ member ''error''
             (quoted ''keys must be str, int, float, bool or None, not datetime.date'') @
           ''}'' @ [newline],
         parser_calls = [py ''Heat.1995'']\<rparr>)"
  by code_simp

text \<open>
  C6. Single-title script: two argument lists with at least one positional
  argument each and the same first positional argument give the same run. Only
  that argument is passed to the parser; whatever follows it is never looked at.
\<close>

theorem single_uses_first_argument:
  assumes "2 \<le> length argv" and "2 \<le> length argv'" and "argv' ! 1 = argv ! 1"
  shows "main_single interp parse_title argv' = main_single interp parse_title argv \<and>
         parser_calls (snd (main_single interp parse_title argv)) = [argv ! 1]"
  using assms
  by (simp add: main_single_eq split: sum.splits)

theorem single_uses_first_argument_witness:
  "2 \<le> length argv_one \<and> 2 \<le> length argv_two \<and> argv_two ! 1 = argv_one ! 1 \<and>
   main_single cpython demo_parser argv_two = main_single cpython demo_parser argv_one \<and>
   parser_calls (snd (main_single cpython demo_parser argv_one)) = [py ''Heat.1995'']"
proof -
  have h: "2 \<le> length argv_one" "2 \<le> length argv_two" "argv_two ! 1 = argv_one ! 1"
    by (simp_all add: argv_one_def argv_two_def)
  have "argv_one ! 1 = py ''Heat.1995''" by (simp add: argv_one_def)
  with single_uses_first_argument [OF h, of cpython demo_parser] h show ?thesis by simp
qed

text \<open>
  C7. With \<^verbatim>\<open>default=str\<close> a value the encoder has no rule for is to appear as
  its string form, and serialization is never to fail. A date that stands as a
  list element or as the value of a dictionary item does appear as the text
  \<^verbatim>\<open>str\<close> gives. A date that stands as a key does not: the \<^verbatim>\<open>default\<close> hook is
  not applied to keys, \<^verbatim>\<open>json.dumps\<close> raises \<^verbatim>\<open>TypeError\<close>, and neither script
  writes anything to standard output.
\<close>

theorem default_str_skips_keys:
  "json_dumps cpython (Some (str_builtin cpython)) (PyList [PyObj a_date, PyInt 7]) =
     Inr (''['' @ quoted ''2020-01-31'' @ '', 7]'') \<and>
   json_dumps cpython (Some (str_builtin cpython)) (PyDict [(PyStr (py ''aired''), PyObj a_date)]) =
     Inr (''{'' @ member ''aired'' (quoted ''2020-01-31'') @ ''}'') \<and>
   json_dumps cpython (Some (str_builtin cpython)) (PyDict [(PyObj a_date, PyInt 1)]) =
     Inl (PyExc ''TypeError''
       (py ''keys must be str, int, float, bool or None, not datetime.date'')) \<and>
   json_dumps cpython (Some (str_builtin cpython)) dated_result =
     Inl (PyExc ''TypeError''
       (py ''keys must be str, int, float, bool or None, not datetime.date'')) \<and>
   stdout (snd (main_single cpython dated_parser argv_one)) = [] \<and>
   stdout (snd (main_batch cpython dated_parser argv_one)) = []"
  by code_simp

text \<open>
  C8, as the code has it. Take two runs of a script on the same argument list, in
  interpreters that differ at most in what \<^verbatim>\<open>str\<close> does, with parsers that answer
  every title of the list alike. If \<^verbatim>\<open>str\<close> does the same in both on every
  object in those answers that \<^verbatim>\<open>default=str\<close> can reach, the two runs end in
  the same way: the same bytes on each stream, the same exit status.
\<close>

theorem adapters_deterministic:
  assumes "\<forall>title \<in> set (drop 1 argv). parse_title title = parse_title' title"
    and "\<forall>title \<in> set (drop 1 argv).
           \<forall>obj \<in> set (answer_objects parse_title title). str_builtin interp obj = str' obj"
  shows "main_single (interp\<lparr>str_builtin := str'\<rparr>) parse_title' argv =
           main_single interp parse_title argv \<and>
         main_batch (interp\<lparr>str_builtin := str'\<rparr>) parse_title' argv =
           main_batch interp parse_title argv"
proof (cases "length argv < 2")
  case True
  then show ?thesis by (simp add: main_single_usage main_batch_usage)
next
  case False
  then have len: "2 \<le> length argv" by simp
  then have "drop 1 argv ! 0 \<in> set (drop 1 argv)"
    by (intro nth_mem) simp
  with len have first: "argv ! 1 \<in> set (drop 1 argv)"
    by simp
  with assms(1) have same: "parse_title' (argv ! 1) = parse_title (argv ! 1)" by simp
  have single: "main_single (interp\<lparr>str_builtin := str'\<rparr>) parse_title' argv =
                main_single interp parse_title argv"
  proof (cases "parse_title (argv ! 1)")
    case (Inl e)
    with len same show ?thesis by (simp add: main_single_eq)
  next
    case (Inr result)
    with assms(2) first have "\<forall>obj \<in> set (objects result). str_builtin interp obj = str' obj"
      by (simp add: answer_objects_def)
    from json_dumps_cong [OF this] Inr len same show ?thesis
      by (simp add: main_single_eq)
  qed
  have "\<forall>obj \<in> set (objects (PyList (batch_results parse_title argv))).
          str_builtin interp obj = str' obj"
    using assms(2) by (simp add: batch_results_eq objects_seq_map objects_batch_item)
  from json_dumps_cong [OF this] len batch_results_cong [OF assms(1)]
  have "main_batch (interp\<lparr>str_builtin := str'\<rparr>) parse_title' argv =
        main_batch interp parse_title argv"
    by (simp add: main_batch_eq split: sum.splits)
  with single show ?thesis by simp
qed

theorem adapters_deterministic_witness:
  "demo_parser (py ''Heat.1995'') = other_parser (py ''Heat.1995'') \<and>
   demo_parser (py ''bad'') \<noteq> other_parser (py ''bad'') \<and>
   str_builtin cpython a_set \<noteq> str_builtin cpython_reseeded a_set \<and>
   main_single cpython_reseeded other_parser argv_one = main_single cpython demo_parser argv_one \<and>
   main_batch cpython_reseeded other_parser argv_one = main_batch cpython demo_parser argv_one"
proof -
  have agree: "\<forall>title \<in> set (drop 1 argv_one). demo_parser title = other_parser title"
    by (simp add: argv_one_def other_parser_def)
  have strs: "\<forall>title \<in> set (drop 1 argv_one).
      \<forall>obj \<in> set (answer_objects demo_parser title).
        str_builtin cpython obj = str_builtin cpython_reseeded obj"
    using answer_objects_demo str_a_date by fastforce
  have re: "cpython\<lparr>str_builtin := str_builtin cpython_reseeded\<rparr> = cpython_reseeded"
    by (simp add: cpython_reseeded_def)
  have "demo_parser (py ''bad'') \<noteq> other_parser (py ''bad'')"
    by (simp add: other_parser_def demo_parser_def py_def)
  moreover have "demo_parser (py ''Heat.1995'') = other_parser (py ''Heat.1995'')"
    by (simp add: other_parser_def)
  moreover have "str_builtin cpython a_set \<noteq> str_builtin cpython_reseeded a_set"
    by (simp add: cpython_reseeded_def cpython_def a_date_def a_set_def py_def apostrophes_def)
  ultimately show ?thesis
    using adapters_deterministic [OF agree strs, unfolded re] by simp
qed

text \<open>
  As stated, C8 needs a deterministic parser only. The parser below returns the
  same dictionary in both runs; it holds a set of two strings, which \<^verbatim>\<open>str\<close>
  lists in the order the hash seed of the process gives, and the two runs print
  different bytes.
\<close>

theorem adapters_deterministic_counterexample:
  "stdout (snd (main_single cpython tags_parser argv_one)) =
     ''{'' @ member ''title'' (quoted ''Heat.1995'') @ '', '' @
     member ''tags'' (quoted (''{'' @ [CHR 0x27] @ ''a'' @ [CHR 0x27] @ '', '' @
                              [CHR 0x27] @ ''b'' @ [CHR 0x27] @ ''}'')) @ ''}'' @ [newline] \<and>
   stdout (snd (main_single cpython_reseeded tags_parser argv_one)) =
     ''{'' @ member ''title'' (quoted ''Heat.1995'') @ '', '' @
     member ''tags'' (quoted (''{'' @ [CHR 0x27] @ ''b'' @ [CHR 0x27] @ '', '' @
                              [CHR 0x27] @ ''a'' @ [CHR 0x27] @ ''}'')) @ ''}'' @ [newline] \<and>
   stdout (snd (main_single cpython tags_parser argv_one)) \<noteq>
     stdout (snd (main_single cpython_reseeded tags_parser argv_one)) \<and>
   stdout (snd (main_batch cpython tags_parser argv_one)) \<noteq>
     stdout (snd (main_batch cpython_reseeded tags_parser argv_one))"
  by code_simp

text \<open>
  C9. No positional argument: neither script calls the parser. The run is the
  error envelope on standard error and \<^verbatim>\<open>sys.exit(1)\<close>, whatever the parser is.
\<close>

theorem usage_error_skips_parser:
  assumes "length argv < 2"
  shows "parser_calls (snd (main_single interp parse_title argv)) = [] \<and>
         parser_calls (snd (main_batch interp parse_title argv)) = [] \<and>
         main_single interp parse_title argv =
           (SystemExit 1, print_stderr (envelope (py ''No title provided'')) start) \<and>
         main_batch interp parse_title argv =
           (SystemExit 1, print_stderr (envelope (py ''No titles provided'')) start)"
  using assms
  by (simp add: main_single_usage main_batch_usage print_stderr_def start_def)

theorem usage_error_skips_parser_witness:
  "length argv_none < 2 \<and>
   parser_calls (snd (main_single cpython failing_parser argv_none)) = [] \<and>
   parser_calls (snd (main_batch cpython failing_parser argv_none)) = [] \<and>
   main_single cpython failing_parser argv_none = main_single cpython demo_parser argv_none \<and>
   main_batch cpython failing_parser argv_none = main_batch cpython demo_parser argv_none"
proof -
  have h: "length argv_none < 2" by (simp add: argv_none_def)
  from usage_error_skips_parser [OF h, of cpython failing_parser]
       usage_error_skips_parser [OF h, of cpython demo_parser] h
  show ?thesis by (simp add: print_stderr_def start_def)
qed

text \<open>
  C10. Batch script, at least one positional argument: nothing is to be written
  to standard error and exactly one line to standard output. In the first run
  below the parser raises on every title, and it is so. In the second the parser
  answers both titles with a dictionary that holds a dictionary keyed by a date:
  the \<^verbatim>\<open>TypeError\<close> of \<^verbatim>\<open>json.dumps\<close> reaches the top level, the interpreter
  writes the traceback to standard error, whatever its frames are, and standard
  output stays empty.
\<close>

theorem batch_traceback_on_rejected_key:
  "main_batch cpython failing_parser argv_two =
     (Returned,
      \<lparr>stdout =
         ''[{'' @ member ''title'' (quoted ''Heat.1995'') @ '', '' @
           member ''parsed'' ''null'' @ '', '' @
           member ''error'' (quoted ''no match'') @
         ''}, {'' @ member ''title'' (quoted ''bad'') @ '', '' @
           member ''parsed'' ''null'' @ '', '' @
           member ''error'' (quoted ''no match'') @ ''}]'' @ [newline],
       stderr = [],
       parser_calls = [py ''Heat.1995'', py ''bad'']\<rparr>) \<and>
   dated_parser (argv_two ! 1) = Inr dated_result \<and>
   dated_parser (argv_two ! 2) = Inr dated_result \<and>
   main_batch (cpython\<lparr>traceback_body := frames\<rparr>) dated_parser argv_two =
     (Uncaught (PyExc ''TypeError''
        (py ''keys must be str, int, float, bool or None, not datetime.date'')),
      \<lparr>stdout = [],
         stderr = ''Traceback (most recent call last):'' @ [newline] @
                  frames (PyExc ''TypeError''
                    (py ''keys must be str, int, float, bool or None, not datetime.date'')),
         parser_calls = [py ''Heat.1995'', py ''bad'']\<rparr>)"
  by code_simp

end
